theory Spec2Isabelle
  imports Complex_Main "HOL-Library.Word" "HOL-Library.Signed_Division"
begin

section \<open>Go library functions used by LinkTerm\<close>

text \<open>
  Go strings and byte slices are sequences of bytes: \<^typ>\<open>string\<close>. Go's \<open>int\<close> is taken to
  be 64 bits wide, as on amd64 and arm64; values of type \<open>int\<close> are modelled as \<^typ>\<open>int\<close>,
  and the one place where the width decides a result (the range check of \<open>strconv.Atoi\<close>)
  writes the bounds out.
\<close>

type_synonym u16 = "16 word"

subsection \<open>Package strings\<close>

text \<open>\<open>strings.HasPrefix(s, prefix)\<close>: \<open>len(s) >= len(prefix) && s[:len(prefix)] == prefix\<close>.\<close>

definition HasPrefix :: "string \<Rightarrow> string \<Rightarrow> bool" where
  "HasPrefix s prefix = (length s \<ge> length prefix \<and> take (length prefix) s = prefix)"


text \<open>
  Both calls of \<open>strings.Split\<close>/\<open>strings.SplitN\<close> in the program pass a separator of one
  byte (\<open>":"\<close> and \<open>"/"\<close>), so the separator is a \<^typ>\<open>char\<close>. \<open>cut sep s\<close> is the step of
  the loop of \<open>genSplit\<close>: \<open>m := Index(s, sep)\<close>, giving \<open>s[:m]\<close> and \<open>s[m+1:]\<close>, or nothing
  when \<open>m < 0\<close>.
\<close>

fun cut :: "char \<Rightarrow> string \<Rightarrow> (string \<times> string) option" where
  "cut sep [] = None"
| "cut sep (x # xs) =
     (if x = sep then Some ([], xs)
      else (case cut sep xs of None \<Rightarrow> None | Some (a, b) \<Rightarrow> Some (x # a, b)))"

text \<open>The loop \<open>for i < n\<close> of \<open>genSplit\<close>, \<open>k\<close> being the iterations left; the rest of the
  string is the last element.\<close>

fun genSplit :: "nat \<Rightarrow> char \<Rightarrow> string \<Rightarrow> string list" where
  "genSplit 0 sep s = [s]"
| "genSplit (Suc k) sep s =
     (case cut sep s of None \<Rightarrow> [s] | Some (a, b) \<Rightarrow> a # genSplit k sep b)"

text \<open>\<open>strings.SplitN(s, sep, n)\<close>: \<open>n = 0\<close> gives nil, \<open>n < 0\<close> all substrings, \<open>n > 0\<close> at
  most \<open>n\<close> substrings, the last one the unsplit remainder.\<close>

definition SplitN :: "string \<Rightarrow> char \<Rightarrow> int \<Rightarrow> string list" where
  "SplitN s sep n =
     (if n = 0 then []
      else (let n1 = (if n < 0 then int (count_list s sep) + 1 else n);
                n2 = (if n1 > int (length s) + 1 then int (length s) + 1 else n1)
            in genSplit (nat (n2 - 1)) sep s))"

definition Split :: "string \<Rightarrow> char \<Rightarrow> string list" where
  "Split s sep = SplitN s sep (- 1)"

subsection \<open>Decimal integers: \<open>fmt\<close>'s verb \<open>%d\<close> and \<open>strconv.Atoi\<close>\<close>

text \<open>The digits of an unsigned magnitude \<open>u\<close>, most significant first, as \<open>fmtInteger\<close>
  produces them (\<open>u\<close> is never negative there).\<close>

definition digit_char :: "int \<Rightarrow> char" where
  "digit_char d = char_of (48 + d)"

function fmt_digits :: "int \<Rightarrow> string" where
  "fmt_digits u = (if u < 10 then [digit_char u] else fmt_digits (u div 10) @ [digit_char (u mod 10)])"
  by pat_completeness auto
termination
  by (relation "measure nat") auto

declare fmt_digits.simps [simp del]

text \<open>\<open>fmt.Sprintf("%d", i)\<close> for an \<open>int\<close>: a minus sign for a negative value, then the
  decimal digits of the magnitude, no padding.\<close>

definition fmt_d :: "int \<Rightarrow> string" where
  "fmt_d i = (if i < 0 then CHR ''-'' # fmt_digits (- i) else fmt_digits i)"

definition is_digit :: "char \<Rightarrow> bool" where
  "is_digit c = (48 \<le> (of_char c :: int) \<and> (of_char c :: int) \<le> 57)"

text \<open>The digit loop of \<open>Atoi\<close>: \<open>ch -= '0'; if ch > 9 {syntax error}; n = n*10 + int(ch)\<close>.\<close>

fun parse_digits :: "int \<Rightarrow> string \<Rightarrow> int option" where
  "parse_digits n [] = Some n"
| "parse_digits n (ch # cs) =
     (if is_digit ch then parse_digits (n * 10 + (of_char ch - 48)) cs else None)"

text \<open>
  \<open>strconv.Atoi(s)\<close>, \<open>None\<close> standing for a non-nil error: an optional sign \<open>+\<close> or \<open>-\<close>,
  then one or more decimal digits (base 10, so no underscores), and the value must fit a
  64-bit \<open>int\<close>. The fast path for short strings and \<open>ParseInt(s, 10, 0)\<close> agree on that; the
  kind of error (syntax or range) is never read by the program.
\<close>

definition Atoi :: "string \<Rightarrow> int option" where
  "Atoi s =
     (case s of
        [] \<Rightarrow> None
      | c # cs \<Rightarrow>
          (let body = (if c = CHR ''-'' \<or> c = CHR ''+'' then cs else s) in
           if body = [] then None
           else (case parse_digits 0 body of
                   None \<Rightarrow> None
                 | Some n \<Rightarrow>
                     (let v = (if c = CHR ''-'' then - n else n) in
                      if - (2 ^ 63) \<le> v \<and> v < 2 ^ 63 then Some v else None))))"

section \<open>The server's inbound pump (\<open>Server.handleTerminal\<close>, server.go)\<close>

text \<open>\<open>websocket.TextMessage\<close> and \<open>websocket.BinaryMessage\<close> are the integer constants 1 and 2.\<close>

definition TextMessage :: int where
  "TextMessage = 1"


text \<open>\<open>pty.Winsize\<close>: four \<open>uint16\<close> fields.\<close>

record Winsize =
  Rows :: u16
  Cols :: u16
  X :: u16
  Y :: u16

text \<open>
  The PTY master \<open>ptmx\<close> as the session sees it: the window size last set, the bytes written
  to it so far, and whether the file has been closed (\<open>closeSession\<close> closes it while the
  inbound pump may still be running). On a closed file \<open>pty.Setsize\<close> returns an error and
  \<open>Write\<close> writes nothing.
\<close>

record pty =
  winsize :: Winsize
  written :: string
  closed :: bool

definition pty_Setsize :: "pty \<Rightarrow> Winsize \<Rightarrow> pty \<times> bool" where
  "pty_Setsize t ws = (if closed t then (t, True) else (t\<lparr>winsize := ws\<rparr>, False))"

definition pty_Write :: "pty \<Rightarrow> string \<Rightarrow> pty" where
  "pty_Write t p = (if closed t then t else t\<lparr>written := written t @ p\<rparr>)"

text \<open>What the inbound pump acts on: the PTY and the server's log (the messages, in order).\<close>

record session =
  ptmx :: pty
  log :: "string list"

text \<open>server.go, lines 203-208: \<open>if err := pty.Setsize(ptmx, &ws); err != nil { log }\<close>.\<close>

definition setsize :: "session \<Rightarrow> Winsize \<Rightarrow> session" where
  "setsize s ws =
     (case pty_Setsize (ptmx s) ws of
        (t, err) \<Rightarrow>
          if err then s\<lparr>ptmx := t, log := log s @ [''Error resizing pty'']\<rparr>
          else s\<lparr>ptmx := t\<rparr>)"

text \<open>
  server.go, lines 194-215: the body of the read loop for one message \<open>(messageType, p)\<close>
  that \<open>conn.ReadMessage\<close> returned without error. \<open>uint16(cols)\<close> is the conversion of an
  \<open>int\<close> to 16 bits, which keeps the low 16 bits: \<^term>\<open>word_of_int\<close>. The composite literal
  leaves \<open>X\<close> and \<open>Y\<close> zero.
\<close>

definition handleMessage :: "session \<Rightarrow> int \<Rightarrow> string \<Rightarrow> session" where
  "handleMessage s messageType p =
     (if messageType = TextMessage then
        (if length p > 7 \<and> take 7 p = ''resize:'' then
           (let parts = Split (drop 7 p) CHR '':'' in
            if length parts = 2 then
              (case (Atoi (parts ! 0), Atoi (parts ! 1)) of
                 (Some cols, Some rows) \<Rightarrow>
                   if cols > 0 \<and> rows > 0
                   then setsize s \<lparr>Rows = word_of_int rows, Cols = word_of_int cols, X = 0, Y = 0\<rparr>
                   else s
               | _ \<Rightarrow> s)
            else s)
         else s\<lparr>ptmx := pty_Write (ptmx s) p\<rparr>)
      else s)"

text \<open>The session when the pumps start: a PTY just opened by \<open>pty.Start\<close>, nothing written
  to it, nothing logged by the pumps.\<close>

definition new_session :: session where
  "new_session =
     \<lparr>ptmx = \<lparr>winsize = \<lparr>Rows = 0, Cols = 0, X = 0, Y = 0\<rparr>, written = [], closed = False\<rparr>,
      log = []\<rparr>"

section \<open>Session durations (server.go 151-165, cli.go 338-351)\<close>

text \<open>
  \<open>time.Duration\<close> is a count of nanoseconds. Its methods \<open>Hours\<close>, \<open>Minutes\<close> and
  \<open>Seconds\<close> split the count with Go's truncating \<open>/\<close> and \<open>%\<close> (\<open>sdiv\<close> and \<open>smod\<close>) and
  add the two parts as \<open>float64\<close>; they are modelled with exact rational arithmetic, so the
  rounding of \<open>float64\<close> is left out. For a duration of whole seconds that changes nothing:
  the fraction added is at most \<open>3599/3600\<close>, \<open>59/60\<close> and \<open>0\<close>, and a \<open>float64\<close> below \<open>2^34\<close>
  is exact to better than \<open>10^-5\<close>, so the integer part is the same. The conversion \<open>int(x)\<close>
  of a floating-point value discards the fraction (it truncates towards zero).
\<close>

type_synonym Duration = int

definition Second :: Duration where
  "Second = 1000000000"

definition Minute :: Duration where
  "Minute = 60 * Second"

definition Hour :: Duration where
  "Hour = 60 * Minute"

definition Hours :: "Duration \<Rightarrow> rat" where
  "Hours d = of_int (d sdiv Hour) + of_int (d smod Hour) / (60 * 60 * 1000000000)"

definition Minutes :: "Duration \<Rightarrow> rat" where
  "Minutes d = of_int (d sdiv Minute) + of_int (d smod Minute) / (60 * 1000000000)"

definition Seconds :: "Duration \<Rightarrow> rat" where
  "Seconds d = of_int (d sdiv Second) + of_int (d smod Second) / 1000000000"

definition int_of_float :: "rat \<Rightarrow> int" where
  "int_of_float x = (if x < 0 then \<lceil>x\<rceil> else \<lfloor>x\<rfloor>)"

text \<open>
  The duration string, computed from \<open>duration := time.Since(startTime)\<close> by the same
  statements in \<open>closeSession\<close> (server) and in \<open>disconnect\<close> (client).
\<close>

definition durationStr :: "Duration \<Rightarrow> string" where
  "durationStr duration =
     (let hours = int_of_float (Hours duration);
          minutes = int_of_float (Minutes duration) smod 60;
          seconds = int_of_float (Seconds duration) smod 60
      in if hours > 0 then
           fmt_d hours @ '' hours, '' @ fmt_d minutes @ '' minutes, '' @ fmt_d seconds @ '' seconds''
         else if minutes > 0 then
           fmt_d minutes @ '' minutes, '' @ fmt_d seconds @ '' seconds''
         else
           fmt_d seconds @ '' seconds'')"

section \<open>The client (cli.go, lines 257-486)\<close>

subsection \<open>Dialers\<close>

text \<open>
  \<open>websocket.Dialer\<close> (gorilla/websocket v1.5.3, the version of go.mod), field by field.
  Function, pointer and interface values are opaque
  handles (\<open>None\<close> is nil). A \<open>*websocket.Dialer\<close> is an address, \<open>None\<close> for nil; the
  dialers live in a store indexed by address, so that an assignment through the pointer is
  seen by every holder of it.
\<close>

record Dialer =
  NetDial :: "nat option"
  NetDialContext :: "nat option"
  NetDialTLSContext :: "nat option"
  Proxy :: "nat option"
  TLSClientConfig :: "nat option"
  HandshakeTimeout :: Duration
  ReadBufferSize :: int
  WriteBufferSize :: int
  WriteBufferPool :: "nat option"
  Subprotocols :: "string list"
  EnableCompression :: bool
  Jar :: "nat option"

type_synonym dialers = "nat \<Rightarrow> Dialer"

text \<open>The address held by the package variable \<open>websocket.DefaultDialer\<close>.\<close>

definition DefaultDialer :: nat where
  "DefaultDialer = 0"

text \<open>cli.go, lines 210-227, \<open>runClient\<close>: \<open>&websocket.Dialer{Proxy: proxy, HandshakeTimeout: 10 * time.Second}\<close>,
  the other fields zero.\<close>

definition cli_dialer :: "nat \<Rightarrow> Dialer" where
  "cli_dialer proxy =
     \<lparr>NetDial = None, NetDialContext = None, NetDialTLSContext = None, Proxy = Some proxy,
      TLSClientConfig = None, HandshakeTimeout = 10 * Second, ReadBufferSize = 0,
      WriteBufferSize = 0, WriteBufferPool = None, Subprotocols = [], EnableCompression = False,
      Jar = None\<rparr>"

subsection \<open>\<open>NewClient\<close> and \<open>SetCustomDialer\<close>\<close>

text \<open>The \<open>Client\<close> struct; its logger takes no part in what follows and is left out.\<close>

record Client =
  URL :: string
  dialer :: "nat option"



definition SetCustomDialer :: "Client \<Rightarrow> nat option \<Rightarrow> Client" where
  "SetCustomDialer c d = c\<lparr>dialer := d\<rparr>"

subsection \<open>\<open>Connect\<close>\<close>

text \<open>
  cli.go, lines 306-312: the dialer \<open>Connect\<close> dials with, and the store after the
  assignment \<open>dialer.HandshakeTimeout = 5 * time.Second\<close>.
\<close>

definition Connect_dialer :: "Client \<Rightarrow> dialers \<Rightarrow> nat \<times> dialers" where
  "Connect_dialer c h =
     (let d = (case dialer c of None \<Rightarrow> DefaultDialer | Some a \<Rightarrow> a)
      in (d, h(d := (h d)\<lparr>HandshakeTimeout := 5 * Second\<rparr>)))"

text \<open>cli.go, lines 397 and 413: \<open>fmt.Sprintf("resize:%d:%d", width, height)\<close>, sent as a
  text message.\<close>

definition resizeMsg :: "int \<Rightarrow> int \<Rightarrow> string" where
  "resizeMsg width height = ''resize:'' @ fmt_d width @ '':'' @ fmt_d height"





section \<open>The address normalisation as the specification words it\<close>




section \<open>Facts about the library functions\<close>

subsection \<open>Splitting\<close>

lemma cut_append: "sep \<notin> set a \<Longrightarrow> cut sep (a @ sep # b) = Some (a, b)"
  by (induction a) auto

lemma cut_SomeD: "cut sep s = Some (a, b) \<Longrightarrow> s = a @ sep # b"
  by (induction s arbitrary: a) (auto split: if_splits option.splits)

lemma genSplit_nonempty: "genSplit k sep s \<noteq> []"
  by (cases k) (auto split: option.splits)

lemma genSplit_singleton: "genSplit k sep s = [x] \<Longrightarrow> x = s"
  by (cases k) (auto simp: genSplit_nonempty split: option.splits)

lemma genSplit_two: "genSplit k sep s = [a, b] \<Longrightarrow> s = a @ sep # b"
  by (cases k) (auto split: option.splits dest!: cut_SomeD genSplit_singleton)

lemma Split_two: "Split s sep = [a, b] \<Longrightarrow> s = a @ sep # b"
  by (auto simp: Split_def SplitN_def Let_def dest: genSplit_two split: if_splits)

lemma Split_pair:
  assumes "sep \<notin> set a" "sep \<notin> set b"
  shows "Split (a @ sep # b) sep = [a, b]"
proof -
  have "count_list (a @ sep # b) sep = 1"
    using assms by (simp add: count_list_0_iff)
  then show ?thesis
    using assms by (simp add: Split_def SplitN_def cut_append)
qed

subsection \<open>Decimal integers\<close>

lemma of_char_digit_char: "0 \<le> d \<Longrightarrow> d < 10 \<Longrightarrow> (of_char (digit_char d) :: int) = 48 + d"
  by (simp add: digit_char_def)

lemma is_digit_digit_char: "0 \<le> d \<Longrightarrow> d < 10 \<Longrightarrow> is_digit (digit_char d)"
  by (simp add: is_digit_def of_char_digit_char)

lemma digit_val_digit_char: "0 \<le> d \<Longrightarrow> d < 10 \<Longrightarrow> (of_char (digit_char d) :: int) - 48 = d"
  by (simp add: of_char_digit_char)

lemma parse_digits_snoc:
  "0 \<le> d \<Longrightarrow> d < 10 \<Longrightarrow>
   parse_digits n (cs @ [digit_char d]) = map_option (\<lambda>k. k * 10 + d) (parse_digits n cs)"
  by (induction cs arbitrary: n) (auto simp: is_digit_digit_char digit_val_digit_char)

lemma parse_fmt_digits: "0 \<le> u \<Longrightarrow> parse_digits 0 (fmt_digits u) = Some u"
proof (induction u rule: fmt_digits.induct)
  case (1 u)
  show ?case
  proof (cases "u < 10")
    case True
    then show ?thesis
      using 1(2) by (subst fmt_digits.simps) (simp add: is_digit_digit_char digit_val_digit_char)
  next
    case False
    then have "parse_digits 0 (fmt_digits (u div 10)) = Some (u div 10)"
      using 1 by simp
    with False show ?thesis
      by (subst fmt_digits.simps) (simp add: parse_digits_snoc)
  qed
qed

lemma fmt_digits_all_digits: "0 \<le> u \<Longrightarrow> c \<in> set (fmt_digits u) \<Longrightarrow> is_digit c"
proof (induction u rule: fmt_digits.induct)
  case (1 u)
  from 1(3) have "c \<in> set (if u < 10 then [digit_char u] else fmt_digits (u div 10) @ [digit_char (u mod 10)])"
    by (subst (asm) fmt_digits.simps)
  then show ?case
    using 1(1,2) by (auto simp: is_digit_digit_char split: if_splits)
qed

lemma fmt_digits_nonempty: "fmt_digits u \<noteq> []"
  by (subst fmt_digits.simps) simp

lemma is_digit_not_sep: "is_digit c \<Longrightarrow> c \<noteq> CHR '':'' \<and> c \<noteq> CHR ''-'' \<and> c \<noteq> CHR ''+''"
  by (auto simp: is_digit_def)

lemma parse_digits_all_digits: "parse_digits n cs = Some k \<Longrightarrow> c \<in> set cs \<Longrightarrow> is_digit c"
  by (induction cs arbitrary: n) (auto split: if_splits)

lemma Atoi_no_colon: "Atoi a = Some v \<Longrightarrow> CHR '':'' \<notin> set a"
  unfolding Atoi_def
  by (auto simp: Let_def split: list.splits if_splits option.splits dest: parse_digits_all_digits is_digit_not_sep)

lemma Atoi_nonempty: "Atoi a = Some v \<Longrightarrow> a \<noteq> []"
  by (auto simp: Atoi_def)

lemma Atoi_fmt_d_nonneg:
  assumes "0 \<le> i" "i < 2 ^ 63"
  shows "Atoi (fmt_d i) = Some i"
proof -
  obtain c cs where eq: "fmt_digits i = c # cs"
    using fmt_digits_nonempty by (cases "fmt_digits i") auto
  then have "is_digit c"
    using fmt_digits_all_digits [of i c] assms by simp
  then have "c \<noteq> CHR ''-''" "c \<noteq> CHR ''+''"
    using is_digit_not_sep by auto
  moreover have "parse_digits 0 (c # cs) = Some i"
    using parse_fmt_digits [of i] eq assms by simp
  ultimately show ?thesis
    using assms eq by (simp add: Atoi_def fmt_d_def del: parse_digits.simps)
qed

subsection \<open>Truncating division and conversion\<close>

lemma sdiv_nonneg: "0 \<le> a \<Longrightarrow> 0 < b \<Longrightarrow> (a::int) sdiv b = a div b"
  by (cases "a = 0") (simp_all add: signed_divide_int_def sgn_if)

lemma smod_nonneg: "0 \<le> a \<Longrightarrow> 0 < b \<Longrightarrow> (a::int) smod b = a mod b"
  by (cases "a = 0") (simp_all add: signed_modulo_int_def sgn_if)

lemma int_of_float_split:
  assumes "0 \<le> q" "0 \<le> r" "r < m"
  shows "int_of_float (of_int q + of_int r / of_int m) = q"
proof -
  have "\<lfloor>(of_int r :: rat) / of_int m\<rfloor> = 0"
    using assms by (simp add: floor_divide_of_int_eq)
  then have "\<lfloor>of_int q + (of_int r :: rat) / of_int m\<rfloor> = q"
    by (metis add.right_neutral floor_add_int add.commute)
  moreover have "0 \<le> of_int q + (of_int r :: rat) / of_int m"
    using assms by simp
  ultimately show ?thesis
    by (simp add: int_of_float_def)
qed

lemma int_of_float_unit:
  assumes "0 \<le> d" "0 < m"
  shows "int_of_float (of_int (d sdiv m) + of_int (d smod m) / of_int m) = d div m"
  using assms int_of_float_split [of "d div m" "d mod m" m]
  by (simp add: sdiv_nonneg smod_nonneg pos_imp_zdiv_nonneg_iff)

lemma Hours_whole: "0 \<le> s \<Longrightarrow> int_of_float (Hours (s * Second)) = s div 3600"
  using int_of_float_unit [of "s * 1000000000" 3600000000000]
  by (simp add: Hours_def Second_def Hour_def Minute_def)

lemma Minutes_whole: "0 \<le> s \<Longrightarrow> int_of_float (Minutes (s * Second)) = s div 60"
  using int_of_float_unit [of "s * 1000000000" 60000000000]
  by (simp add: Minutes_def Second_def Minute_def)

lemma Seconds_whole: "0 \<le> s \<Longrightarrow> int_of_float (Seconds (s * Second)) = s"
  using int_of_float_unit [of "s * 1000000000" 1000000000]
  by (simp add: Seconds_def Second_def)

lemma durationStr_whole:
  assumes "0 \<le> s"
  shows "durationStr (s * Second) =
     (if s div 3600 > 0 then
        fmt_d (s div 3600) @ '' hours, '' @ fmt_d (s div 60 mod 60) @ '' minutes, '' @ fmt_d (s mod 60) @ '' seconds''
      else if s div 60 mod 60 > 0 then
        fmt_d (s div 60 mod 60) @ '' minutes, '' @ fmt_d (s mod 60) @ '' seconds''
      else fmt_d (s mod 60) @ '' seconds'')"
proof -
  have "(s div 60) smod 60 = s div 60 mod 60" "s smod 60 = s mod 60"
    using assms by (simp_all add: smod_nonneg pos_imp_zdiv_nonneg_iff)
  then show ?thesis
    using assms by (simp add: durationStr_def Hours_whole Minutes_whole Seconds_whole Let_def)
qed

section \<open>Resize control messages\<close>

text \<open>A text message \<open>resize:a:b\<close> whose two fields \<open>Atoi\<close> accepts reaches the test
  \<open>cols > 0 && rows > 0\<close>.\<close>

lemma handleMessage_resize:
  assumes "Atoi a = Some cols" "Atoi b = Some rows"
  shows "handleMessage s TextMessage (''resize:'' @ a @ '':'' @ b) =
           (if cols > 0 \<and> rows > 0
            then setsize s \<lparr>Rows = word_of_int rows, Cols = word_of_int cols, X = 0, Y = 0\<rparr>
            else s)"
proof -
  have "Split (a @ CHR '':'' # b) CHR '':'' = [a, b]"
    using assms by (intro Split_pair Atoi_no_colon)
  moreover have "a \<noteq> []"
    using assms(1) by (rule Atoi_nonempty)
  ultimately show ?thesis
    using assms by (simp add: handleMessage_def)
qed

subsection \<open>Encoding, then decoding\<close>

text \<open>
  Claim C1, as amended. For \<open>0 < cols \<le> 65535\<close> and \<open>0 < rows \<le> 65535\<close>, the server, on the
  text message that the client formats for \<open>(cols, rows)\<close>, calls \<open>pty.Setsize\<close> with a
  window size whose \<open>Cols\<close> is \<open>cols\<close> and whose \<open>Rows\<close> is \<open>rows\<close> (and \<open>X = Y = 0\<close>); on a
  PTY that is open this sets the window size to exactly that and changes nothing else.
\<close>

theorem resize_roundtrip:
  assumes "0 < cols" "cols < 65536" "0 < rows" "rows < 65536"
  shows "\<exists>ws. uint (Cols ws) = cols \<and> uint (Rows ws) = rows \<and> X ws = 0 \<and> Y ws = 0 \<and>
           handleMessage s TextMessage (resizeMsg cols rows) = setsize s ws \<and>
           (\<not> closed (ptmx s) \<longrightarrow>
              handleMessage s TextMessage (resizeMsg cols rows) = s\<lparr>ptmx := (ptmx s)\<lparr>winsize := ws\<rparr>\<rparr>)"
proof -
  let ?ws = "\<lparr>Rows = word_of_int rows, Cols = word_of_int cols, X = 0, Y = 0\<rparr> :: Winsize"
  have "Atoi (fmt_d cols) = Some cols" "Atoi (fmt_d rows) = Some rows"
    using assms by (simp_all add: Atoi_fmt_d_nonneg)
  then have eq: "handleMessage s TextMessage (resizeMsg cols rows) = setsize s ?ws"
    using assms handleMessage_resize [of "fmt_d cols" cols "fmt_d rows" rows s]
    by (simp add: resizeMsg_def)
  have "uint (Cols ?ws) = cols" "uint (Rows ?ws) = rows"
    using assms by (simp_all add: uint_word_of_int)
  moreover have "\<not> closed (ptmx s) \<longrightarrow> setsize s ?ws = s\<lparr>ptmx := (ptmx s)\<lparr>winsize := ?ws\<rparr>\<rparr>"
    by (simp add: setsize_def pty_Setsize_def)
  ultimately show ?thesis
    using eq by (intro exI [of _ ?ws]) simp
qed

theorem resize_roundtrip_witness:
  "(0::int) < 120 \<and> (120::int) < 65536 \<and> (0::int) < 40 \<and> (40::int) < 65536 \<and>
   resizeMsg 120 40 = ''resize:120:40'' \<and>
   handleMessage new_session TextMessage (resizeMsg 120 40) =
     new_session\<lparr>ptmx := (ptmx new_session)\<lparr>winsize := \<lparr>Rows = 40, Cols = 120, X = 0, Y = 0\<rparr>\<rparr>\<rparr>"
proof -
  obtain ws where ws: "uint (Cols ws) = 120" "uint (Rows ws) = 40" "X ws = 0" "Y ws = 0"
    and run: "\<not> closed (ptmx new_session) \<longrightarrow>
      handleMessage new_session TextMessage (resizeMsg 120 40) =
        new_session\<lparr>ptmx := (ptmx new_session)\<lparr>winsize := ws\<rparr>\<rparr>"
    using resize_roundtrip [of 120 40 new_session] by auto
  have "Cols ws = word_of_int (uint (Cols ws))" "Rows ws = word_of_int (uint (Rows ws))"
    by simp_all
  then have "Cols ws = 120" "Rows ws = 40"
    unfolding ws by simp_all
  then have "ws = \<lparr>Rows = 40, Cols = 120, X = 0, Y = 0\<rparr>"
    using ws by (cases ws) simp
  moreover have "resizeMsg 120 40 = ''resize:120:40''"
    by code_simp
  moreover have "\<not> closed (ptmx new_session)"
    by (simp add: new_session_def)
  ultimately show ?thesis
    using run by simp
qed

text \<open>
  The claim as first stated, for every positive \<open>cols\<close> and \<open>rows\<close>, fails: the message for
  \<open>(65536, 40)\<close> sets a PTY of 0 columns, since \<open>Winsize.Cols\<close> is a \<open>uint16\<close>.
\<close>

theorem resize_roundtrip_counterexample:
  "(0::int) < 65536 \<and> (0::int) < 40 \<and>
   resizeMsg 65536 40 = ''resize:65536:40'' \<and>
   handleMessage new_session TextMessage (resizeMsg 65536 40) =
     new_session\<lparr>ptmx := (ptmx new_session)\<lparr>winsize := \<lparr>Rows = 40, Cols = 0, X = 0, Y = 0\<rparr>\<rparr>\<rparr> \<and>
   uint (Cols (winsize (ptmx (handleMessage new_session TextMessage (resizeMsg 65536 40))))) \<noteq> 65536"
proof -
  have msg: "resizeMsg 65536 40 = ''resize:65536:40''"
    by code_simp
  have run: "handleMessage new_session TextMessage (resizeMsg 65536 40) =
     new_session\<lparr>ptmx := (ptmx new_session)\<lparr>winsize := \<lparr>Rows = 40, Cols = 0, X = 0, Y = 0\<rparr>\<rparr>\<rparr>"
    by code_simp
  have "uint (Cols (winsize (ptmx (handleMessage new_session TextMessage (resizeMsg 65536 40))))) = 0"
    unfolding run by simp
  then show ?thesis
    using msg run by simp
qed

subsection \<open>Malformed resize messages\<close>

text \<open>
  Claim C2, as amended. A text message longer than the 7 bytes of \<open>resize:\<close> that starts
  with \<open>resize:\<close>, and whose remainder is not \<open>a:b\<close> with \<open>a\<close> and \<open>b\<close> accepted by
  \<open>strconv.Atoi\<close> as positive integers (it does not parse as two integers, or one of them
  is not positive), leaves the session as it was: no resize, nothing written to the PTY,
  nothing logged.
\<close>

theorem malformed_resize_ignored:
  assumes "length p > 7" "HasPrefix p ''resize:''"
    and "\<not> (\<exists>a b cols rows. drop 7 p = a @ '':'' @ b \<and> Atoi a = Some cols \<and> Atoi b = Some rows \<and> 0 < cols \<and> 0 < rows)"
  shows "handleMessage s TextMessage p = s"
proof -
  define parts where "parts = Split (drop 7 p) CHR '':''"
  have pre: "take 7 p = ''resize:''"
    using assms(2) by (simp add: HasPrefix_def eval_nat_numeral)
  show ?thesis
  proof (cases "length parts = 2")
    case False
    then show ?thesis
      using assms(1) pre by (simp add: handleMessage_def parts_def)
  next
    case True
    then obtain a b where ab: "parts = [a, b]"
      by (cases parts; cases "tl parts") auto
    then have "drop 7 p = a @ '':'' @ b"
      using Split_two [of "drop 7 p" "CHR '':''" a b] by (simp add: parts_def)
    then have "\<not> (\<exists>cols rows. Atoi a = Some cols \<and> Atoi b = Some rows \<and> 0 < cols \<and> 0 < rows)"
      using assms(3) by blast
    then show ?thesis
      using assms(1) pre ab
      by (auto simp: handleMessage_def parts_def [symmetric] split: option.splits)
  qed
qed

theorem malformed_resize_ignored_witness:
  "length ''resize:0:40'' > 7 \<and> HasPrefix ''resize:0:40'' ''resize:'' \<and>
   \<not> (\<exists>a b cols rows. drop 7 ''resize:0:40'' = a @ '':'' @ b \<and> Atoi a = Some cols \<and>
        Atoi b = Some rows \<and> 0 < cols \<and> 0 < rows) \<and>
   handleMessage (new_session\<lparr>ptmx := (ptmx new_session)\<lparr>winsize := \<lparr>Rows = 40, Cols = 120, X = 0, Y = 0\<rparr>\<rparr>\<rparr>)
     TextMessage ''resize:0:40''
   = new_session\<lparr>ptmx := (ptmx new_session)\<lparr>winsize := \<lparr>Rows = 40, Cols = 120, X = 0, Y = 0\<rparr>\<rparr>\<rparr>"
proof -
  have no: "\<not> (\<exists>a b cols rows. drop 7 ''resize:0:40'' = a @ '':'' @ b \<and> Atoi a = Some cols \<and>
        Atoi b = Some rows \<and> 0 < cols \<and> 0 < rows)"
  proof
    assume "\<exists>a b cols rows. drop 7 ''resize:0:40'' = a @ '':'' @ b \<and> Atoi a = Some cols \<and>
        Atoi b = Some rows \<and> 0 < cols \<and> 0 < rows"
    then obtain a b cols rows where eq: "''0:40'' = a @ CHR '':'' # b"
      and a: "Atoi a = Some cols" and b: "Atoi b = Some rows" and pos: "0 < cols"
      by auto
    have "Split (a @ CHR '':'' # b) CHR '':'' = [a, b]"
      using a b by (intro Split_pair Atoi_no_colon)
    moreover have "Split ''0:40'' CHR '':'' = [''0'', ''40'']"
      by code_simp
    ultimately have "a = ''0''"
      using eq by simp
    moreover have "Atoi ''0'' = Some 0"
      by code_simp
    ultimately show False
      using a pos by simp
  qed
  have len: "length ''resize:0:40'' > 7" and pre: "HasPrefix ''resize:0:40'' ''resize:''"
    by (simp_all add: HasPrefix_def)
  show ?thesis
    using len pre no malformed_resize_ignored [OF len pre no] by (intro conjI)
qed

text \<open>
  The claim as first stated, for every payload that begins with \<open>resize:\<close>, fails at the
  payload \<open>resize:\<close> itself: the test \<open>len(p) > 7\<close> sends it to the PTY as input.
\<close>

theorem malformed_resize_ignored_counterexample:
  "\<not> length ''resize:'' > 7 \<and> HasPrefix ''resize:'' ''resize:'' \<and>
   \<not> (\<exists>a b cols rows. drop 7 ''resize:'' = a @ '':'' @ b \<and> Atoi a = Some cols \<and>
        Atoi b = Some rows \<and> 0 < cols \<and> 0 < rows) \<and>
   handleMessage new_session TextMessage ''resize:'' =
     new_session\<lparr>ptmx := (ptmx new_session)\<lparr>written := ''resize:''\<rparr>\<rparr> \<and>
   handleMessage new_session TextMessage ''resize:'' \<noteq> new_session"
proof -
  have "\<not> length ''resize:'' > 7" "HasPrefix ''resize:'' ''resize:''"
    by (simp_all add: HasPrefix_def)
  moreover have "handleMessage new_session TextMessage ''resize:'' =
     new_session\<lparr>ptmx := (ptmx new_session)\<lparr>written := ''resize:''\<rparr>\<rparr>"
    by (simp add: handleMessage_def pty_Write_def new_session_def)
  moreover have "handleMessage new_session TextMessage ''resize:'' \<noteq> new_session"
    by (simp add: handleMessage_def pty_Write_def new_session_def)
  ultimately show ?thesis
    by simp
qed

subsection \<open>Truncation to 16 bits\<close>



subsection \<open>Messages that are not text\<close>



section \<open>Duration strings\<close>

text \<open>
  Claim C5. For a duration of \<open>s\<close> whole seconds, \<open>s \<ge> 0\<close>, the string is \<open>S seconds\<close> when
  \<open>s < 60\<close>, \<open>M minutes, S seconds\<close> when \<open>60 \<le> s < 3600\<close>, and
  \<open>H hours, M minutes, S seconds\<close> when \<open>s \<ge> 3600\<close>, with \<open>H = s div 3600\<close>,
  \<open>M = (s div 60) mod 60\<close>, \<open>S = s mod 60\<close> printed in decimal; 45 s, 125 s and 3725 s give
  \<open>45 seconds\<close>, \<open>2 minutes, 5 seconds\<close> and \<open>1 hours, 2 minutes, 5 seconds\<close>.
\<close>

theorem durationStr_coarsest_unit:
  assumes "0 \<le> s"
  shows "durationStr (s * Second) =
     (if s < 60 then fmt_d (s mod 60) @ '' seconds''
      else if s < 3600 then
        fmt_d (s div 60 mod 60) @ '' minutes, '' @ fmt_d (s mod 60) @ '' seconds''
      else
        fmt_d (s div 3600) @ '' hours, '' @ fmt_d (s div 60 mod 60) @ '' minutes, '' @
        fmt_d (s mod 60) @ '' seconds'') \<and>
     durationStr (45 * Second) = ''45 seconds'' \<and>
     durationStr (125 * Second) = ''2 minutes, 5 seconds'' \<and>
     durationStr (3725 * Second) = ''1 hours, 2 minutes, 5 seconds''"
proof -
  have h: "(s div 3600 > 0) = (3600 \<le> s)"
    using assms by (simp add: pos_imp_zdiv_pos_iff)
  have m: "(s div 60 mod 60 > 0) = (60 \<le> s)" if "s < 3600"
  proof -
    have "s div 60 < 60" "0 \<le> s div 60"
      using assms that by simp_all
    then have "s div 60 mod 60 = s div 60"
      by simp
    then show ?thesis
      using assms by (simp add: pos_imp_zdiv_pos_iff)
  qed
  have "durationStr (s * Second) =
     (if s < 60 then fmt_d (s mod 60) @ '' seconds''
      else if s < 3600 then
        fmt_d (s div 60 mod 60) @ '' minutes, '' @ fmt_d (s mod 60) @ '' seconds''
      else
        fmt_d (s div 3600) @ '' hours, '' @ fmt_d (s div 60 mod 60) @ '' minutes, '' @
        fmt_d (s mod 60) @ '' seconds'')"
    using assms m by (simp add: durationStr_whole h)
  moreover have "durationStr (45 * Second) = ''45 seconds''"
    by code_simp
  moreover have "durationStr (125 * Second) = ''2 minutes, 5 seconds''"
    by code_simp
  moreover have "durationStr (3725 * Second) = ''1 hours, 2 minutes, 5 seconds''"
    by code_simp
  ultimately show ?thesis
    by (intro conjI)
qed

theorem durationStr_coarsest_unit_witness:
  "(0::int) \<le> 7384 \<and> durationStr (7384 * Second) = ''2 hours, 3 minutes, 4 seconds''"
proof -
  have "fmt_d 2 = ''2''" "fmt_d 3 = ''3''" "fmt_d 4 = ''4''"
    by code_simp+
  then show ?thesis
    using durationStr_coarsest_unit [of 7384] by simp
qed

section \<open>The client's disconnect report\<close>






section \<open>The client's URL\<close>

















section \<open>The handshake timeout\<close>

text \<open>
  Claim C10. After \<open>SetCustomDialer\<close> has installed the dialer at address \<open>p\<close>, \<open>Connect\<close>
  dials with that dialer, and the only change to the store is that this dialer's
  \<open>HandshakeTimeout\<close> has become 5 seconds (5000000000 ns): each of its other eleven fields
  is as supplied, and no other dialer is touched. The dialers that the command line builds
  carry 10 seconds and are dialled with 5. Whatever the client's dialer (nil included, which
  stands for \<open>websocket.DefaultDialer\<close>), the dialer dialled with has a timeout of 5 seconds.
\<close>

theorem Connect_sets_handshake_timeout:
  "fst (Connect_dialer (SetCustomDialer c (Some p)) h) = p \<and>
   snd (Connect_dialer (SetCustomDialer c (Some p)) h) =
     h(p := (h p)\<lparr>HandshakeTimeout := 5 * Second\<rparr>) \<and>
   (let d = snd (Connect_dialer (SetCustomDialer c (Some p)) h) p in
      HandshakeTimeout d = 5000000000 \<and>
      NetDial d = NetDial (h p) \<and> NetDialContext d = NetDialContext (h p) \<and>
      NetDialTLSContext d = NetDialTLSContext (h p) \<and> Proxy d = Proxy (h p) \<and>
      TLSClientConfig d = TLSClientConfig (h p) \<and> ReadBufferSize d = ReadBufferSize (h p) \<and>
      WriteBufferSize d = WriteBufferSize (h p) \<and> WriteBufferPool d = WriteBufferPool (h p) \<and>
      Subprotocols d = Subprotocols (h p) \<and> EnableCompression d = EnableCompression (h p) \<and>
      Jar d = Jar (h p)) \<and>
   HandshakeTimeout (cli_dialer proxy) = 10000000000 \<and>
   snd (Connect_dialer (SetCustomDialer c (Some p)) (h(p := cli_dialer proxy))) p =
     (cli_dialer proxy)\<lparr>HandshakeTimeout := 5000000000\<rparr> \<and>
   HandshakeTimeout (snd (Connect_dialer c h) (fst (Connect_dialer c h))) = 5000000000"
  by (simp add: Connect_dialer_def SetCustomDialer_def Second_def cli_dialer_def Let_def)

end
